theory Spec2Isabelle
  imports Main
begin

section \<open>The day-planner user controller (api/controllers/user.controller.ts)\<close>

text \<open>
  The controller is a set of Express handlers over third-party collaborators: the
  user collection (mongoose), the session cache (redis), the CMS (sanity), the mail
  transport, the JWT library and the validator library. Each handler is embedded as a
  function from the request and the state of the collaborators to what the handler
  answers and the new state. An exception is the message it carries (\<open>error.message\<close>
  is all the handlers read of it); every call of a collaborator is logged with its
  result, and whether it throws is a parameter of the environment.
\<close>

subsection \<open>JavaScript values\<close>

datatype jsval =
    JUndefined
  | JNull
  | JBool bool
  | JNum int
  | JStr string
  | JObj "(string \<times> jsval) list"

text \<open>Truthiness, as tested by \<open>!v\<close> and \<open>if (v)\<close>.\<close>

fun truthy :: "jsval \<Rightarrow> bool" where
  "truthy JUndefined = False"
| "truthy JNull = False"
| "truthy (JBool b) = b"
| "truthy (JNum n) = (n \<noteq> 0)"
| "truthy (JStr s) = (s \<noteq> [])"
| "truthy (JObj kvs) = True"

text \<open>
  A request field that is a string when present: \<open>None\<close> is \<open>undefined\<close>.
  \<open>!v\<close> holds for \<open>undefined\<close> and for the empty string.
\<close>

definition falsy :: "string option \<Rightarrow> bool" where
  "falsy v = (case v of None \<Rightarrow> True | Some s \<Rightarrow> s = [])"

text \<open>
  The property read \<open>v.f\<close>: a TypeError on \<open>undefined\<close> and \<open>null\<close>, the field
  of an object (\<open>undefined\<close> when it has none), \<open>undefined\<close> on the other primitives
  (the controller reads only \<open>_id\<close>, \<open>id\<close>, \<open>user\<close>, \<open>activationCode\<close>,
  \<open>name\<close>, \<open>email\<close> and \<open>password\<close>). \<open>Inl\<close> is the thrown error's message.
\<close>

definition quote :: "string \<Rightarrow> string" where
  "quote s = [CHR 0x27] @ s @ [CHR 0x27]"

fun read_prop :: "jsval \<Rightarrow> string \<Rightarrow> string + jsval" where
  "read_prop JUndefined f = Inl (''Cannot read properties of undefined (reading '' @ quote f @ '')'')"
| "read_prop JNull f = Inl (''Cannot read properties of null (reading '' @ quote f @ '')'')"
| "read_prop (JObj kvs) f = Inr (case map_of kvs f of None \<Rightarrow> JUndefined | Some v \<Rightarrow> v)"
| "read_prop v f = Inr JUndefined"


text \<open>
  Strict inequality \<open>a !== b\<close>. Two objects are equal only when they are the same
  object; the operands compared by the controller come from two different parses (the
  request body and the token), so two objects always differ.
\<close>

fun strict_neq :: "jsval \<Rightarrow> jsval \<Rightarrow> bool" where
  "strict_neq (JObj a) (JObj b) = True"
| "strict_neq a b = (a \<noteq> b)"

text \<open>Decimal digits of a number (\<open>Number.prototype.toString\<close> on a natural number).\<close>

fun toString :: "nat \<Rightarrow> string" where
  "toString n =
     (if n < 10 then [''0123456789'' ! n]
      else toString (n div 10) @ [''0123456789'' ! (n mod 10)])"

declare toString.simps [simp del]


subsection \<open>JSON web tokens (jsonwebtoken) and serialized sessions\<close>

text \<open>
  A token string is either a JWT, described by the secret it was signed with, its
  payload and the second at which it expires, or any other string. Times are in seconds.
\<close>

datatype token =
    Signed (signing_key: string) (claims: jsval) (expires_at: nat)
  | Opaque string

text \<open>
  \<open>jwt.sign(payload, secret, {expiresIn})\<close> at time \<open>t\<close>. The secrets of the
  environment are taken as configured, so that signing does not throw.
\<close>

definition jwt_sign :: "jsval \<Rightarrow> string \<Rightarrow> nat \<Rightarrow> nat \<Rightarrow> token" where
  "jwt_sign payload secret expiresIn t = Signed secret payload (t + expiresIn)"

text \<open>
  \<open>jwt.verify(token, secret)\<close> at time \<open>t\<close>: it throws on a missing or malformed
  token, on a signature made with another secret, and on a token whose expiry is not
  after \<open>t\<close>; otherwise it returns the payload.
\<close>

fun jwt_verify :: "token option \<Rightarrow> string \<Rightarrow> nat \<Rightarrow> string + jsval" where
  "jwt_verify None secret t = Inl ''jwt must be provided''"
| "jwt_verify (Some (Opaque s)) secret t =
     Inl (if s = [] then ''jwt must be provided'' else ''jwt malformed'')"
| "jwt_verify (Some (Signed k payload e)) secret t =
     (if k \<noteq> secret then Inl ''invalid signature''
      else if e \<le> t then Inl ''jwt expired''
      else Inr payload)"

text \<open>
  What anybody holding a token reads from it without the secret (the payload of a JWT
  is encoded, not encrypted).
\<close>

fun jwt_decode :: "token \<Rightarrow> jsval option" where
  "jwt_decode (Signed k payload e) = Some payload"
| "jwt_decode (Opaque s) = None"

text \<open>\<open>!token\<close> on a cookie or body field holding a token string.\<close>

fun no_token :: "token option \<Rightarrow> bool" where
  "no_token None = True"
| "no_token (Some (Opaque s)) = (s = [])"
| "no_token (Some (Signed k payload e)) = False"

text \<open>
  A string stored in the cache: the JSON text of a value, or text that is not JSON.
  \<open>JSON.parse\<close> gives the value back, throws on the latter, and returns \<open>null\<close> for
  the \<open>null\<close> that the cache client answers for a key it does not hold.
\<close>

datatype json_text = JSON_stringify jsval | Not_JSON string

fun JSON_parse :: "json_text option \<Rightarrow> string + jsval" where
  "JSON_parse None = Inr JNull"
| "JSON_parse (Some (JSON_stringify v)) = Inr v"
| "JSON_parse (Some (Not_JSON s)) = Inl ''Unexpected token in JSON''"

subsection \<open>Documents, mails and calls of the collaborators\<close>

record IUser =
  uid :: string
  name :: string
  email :: string
  password :: string

record event =
  event_id :: string
  title :: string

text \<open>
  A reminder document of the CMS. \<open>eventId\<close> is \<open>None\<close> when the field is missing,
  \<open>Some None\<close> when the reference has no \<open>_ref\<close>.
\<close>

record reminder =
  reminder_id :: string
  eventId :: "string option option"
  userId :: string
  sent :: bool
  reminderTime :: nat

datatype mail_data =
    ActivationData string string
  | ReminderData string event string

record mail =
  template :: string
  mail_to :: string
  subject :: string
  data :: mail_data

datatype call =
    FindOne string
  | FindById string
  | Create jsval jsval jsval
  | ComparePasswords IUser string
  | SendToken IUser
  | RedisGet jsval
  | SendMail mail
  | FetchReminders
  | FetchEvent string
  | PatchSent string

type_synonym log = "(call \<times> string option) list"

subsection \<open>Environment and state\<close>

text \<open>
  The environment of one request: the configuration (\<open>process.env\<close>), the clock, the
  value of \<open>Math.floor(Math.random() * 9000)\<close>, the two predicates of the validator
  library, the password comparison of the user model, and \<open>fault\<close>: given the calls
  made so far and the next call, the message of the error the collaborator throws, or
  \<open>None\<close> when the call goes through.
\<close>

record env =
  ACTIVATION_SECRET :: string
  ACCESS_TOKEN :: string
  REFRESH_TOKEN :: string
  FRONTEND_URL :: string
  now :: nat
  random :: nat
  isEmail :: "string \<Rightarrow> bool"
  isStrongPassword :: "string \<Rightarrow> bool"
  comparePasswords :: "IUser \<Rightarrow> string \<Rightarrow> bool"
  newId :: "IUser list \<Rightarrow> string"
  storedPassword :: "string \<Rightarrow> string"
  fault :: "log \<Rightarrow> call \<Rightarrow> string option"

text \<open>
  The state: the user collection, the session cache (keyed by the value the client is
  called with), the reminder and event documents of the CMS, the mails delivered, and
  the log of calls.
\<close>

record world =
  users :: "IUser list"
  redis :: "jsval \<Rightarrow> json_text option"
  reminders :: "reminder list"
  events :: "event list"
  outbox :: "mail list"
  trace :: log

text \<open>One call of a collaborator: it is logged with its result.\<close>

definition perform :: "env \<Rightarrow> call \<Rightarrow> world \<Rightarrow> string option \<times> world" where
  "perform E c w =
     (let r = fault E (trace w) c in (r, w\<lparr>trace := trace w @ [(c, r)]\<rparr>))"

text \<open>
  What a handler answers: \<open>res.status(s).json(body)\<close>, \<open>next(new ErrorHandler(message,
  statusCode))\<close>, or the answer that \<open>sendToken(user, res)\<close> (utils/jwt) writes.
\<close>

datatype body =
    Message string
  | ActivationSent string token
  | Activated IUser string
  | NewAccessToken token
  | UserInfo jsval

datatype outcome =
    Responded nat body
  | Forwarded string nat
  | SentToken IUser

datatype cookie_options = accessTokenOptions | refreshTokenOptions

record response =
  cookies :: "(string \<times> token \<times> cookie_options) list"
  outcome :: outcome

subsection \<open>registerUser and createActivationToken\<close>

definition createActivationToken :: "env \<Rightarrow> jsval \<Rightarrow> string \<times> token" where
  "createActivationToken E user =
     (let activationCode = toString (random E mod 9000 + 1000);
          token = jwt_sign (JObj [(''user'', user), (''activationCode'', JStr activationCode)])
                    (ACTIVATION_SECRET E) 300 (now E)
      in (activationCode, token))"

definition weak_password_message :: string where
  "weak_password_message =
     ''Password must be at least 8 characters long and contain at least 1 lowercase, 1 uppercase, 1 number and 1 special character''"

definition registerUser ::
  "env \<Rightarrow> string option \<Rightarrow> string option \<Rightarrow> string option \<Rightarrow> world \<Rightarrow> outcome \<times> world" where
  "registerUser E name_field email_field password_field w =
     (if falsy name_field \<or> falsy email_field \<or> falsy password_field
      then (Forwarded ''Please enter all fields'' 400, w)
      else case (name_field, email_field, password_field) of
        (Some n, Some e, Some p) \<Rightarrow>
          if \<not> isEmail E e then (Forwarded ''Invalid Email'' 400, w)
          else if \<not> isStrongPassword E p then (Forwarded weak_password_message 400, w)
          else (case perform E (FindOne e) w of
            (Some err, w1) \<Rightarrow> (Forwarded err 500, w1)
          | (None, w1) \<Rightarrow>
             (case find (\<lambda>u. email u = e) (users w1) of
                Some u \<Rightarrow> (Forwarded ''Email already exists'' 400, w1)
              | None \<Rightarrow>
                 (let user = JObj [(''name'', JStr n), (''email'', JStr e), (''password'', JStr p)];
                      (activationCode, token) = createActivationToken E user;
                      m = \<lparr>template = ''activateEmail.ejs'', mail_to = e,
                           subject = ''Account Activation'',
                           data = ActivationData n activationCode\<rparr>
                  in case perform E (SendMail m) w1 of
                       (Some err, w2) \<Rightarrow> (Forwarded err 500, w2)
                     | (None, w2) \<Rightarrow>
                         (Responded 201 (ActivationSent (''Activation code sent to '' @ e) token),
                          w2\<lparr>outbox := outbox w2 @ [m]\<rparr>))))
      | _ \<Rightarrow> (Forwarded ''Please enter all fields'' 400, w))"

subsection \<open>activateUser\<close>

text \<open>
  Modelled from the spec: the schema of the user model (models/userModel) is not among
  the sources. The collection is a list of documents; \<open>userModel.create\<close> appends a
  document with the given name and email, the password as the schema stores it and a new
  id, and throws when a field is not a string or when the environment says so.
\<close>

definition userModel_create ::
  "env \<Rightarrow> jsval \<Rightarrow> jsval \<Rightarrow> jsval \<Rightarrow> world \<Rightarrow> (string + IUser) \<times> world" where
  "userModel_create E n e p w =
     (case perform E (Create n e p) w of
        (Some err, w1) \<Rightarrow> (Inl err, w1)
      | (None, w1) \<Rightarrow>
          (case (n, e, p) of
             (JStr n', JStr e', JStr p') \<Rightarrow>
               (let doc = \<lparr>uid = newId E (users w1), name = n', email = e',
                           password = storedPassword E p'\<rparr>
                in (Inr doc, w1\<lparr>users := users w1 @ [doc]\<rparr>))
           | _ \<Rightarrow> (Inl ''User validation failed'', w1)))"

definition activateUser :: "env \<Rightarrow> token option \<Rightarrow> jsval \<Rightarrow> world \<Rightarrow> outcome \<times> world" where
  "activateUser E activation_token activation_code w =
     (case jwt_verify activation_token (ACTIVATION_SECRET E) (now E) of
        Inl err \<Rightarrow> (Forwarded err 500, w)
      | Inr verifyToken \<Rightarrow>
         (case read_prop verifyToken ''activationCode'' of
            Inl err \<Rightarrow> (Forwarded err 500, w)
          | Inr code \<Rightarrow>
             if strict_neq activation_code code
             then (Forwarded ''Invalid Activation Code'' 400, w)
             else (case read_prop verifyToken ''user'' of
                Inl err \<Rightarrow> (Forwarded err 500, w)
              | Inr newUser \<Rightarrow>
                 (case read_prop newUser ''name'' of
                    Inl err \<Rightarrow> (Forwarded err 500, w)
                  | Inr n \<Rightarrow>
                     (case read_prop newUser ''email'' of
                        Inl err \<Rightarrow> (Forwarded err 500, w)
                      | Inr e \<Rightarrow>
                         (case read_prop newUser ''password'' of
                            Inl err \<Rightarrow> (Forwarded err 500, w)
                          | Inr p \<Rightarrow>
                             (case userModel_create E n e p w of
                                (Inl err, w1) \<Rightarrow> (Forwarded err 500, w1)
                              | (Inr user, w1) \<Rightarrow>
                                  (Responded 201
                                     (Activated user ''Account activated successfully''),
                                   w1))))))))"

subsection \<open>userLogin\<close>

definition userLogin :: "env \<Rightarrow> string option \<Rightarrow> string option \<Rightarrow> world \<Rightarrow> outcome \<times> world" where
  "userLogin E password_field email_field w =
     (if falsy password_field \<or> falsy email_field
      then (Forwarded ''Please provide all the fields'' 400, w)
      else case (password_field, email_field) of
        (Some p, Some e) \<Rightarrow>
          (case perform E (FindOne e) w of
             (Some err, w1) \<Rightarrow> (Forwarded err 400, w1)
           | (None, w1) \<Rightarrow>
              (case find (\<lambda>u. email u = e) (users w1) of
                 None \<Rightarrow> (Forwarded ''email or password is invalid'' 400, w1)
               | Some user \<Rightarrow>
                  (case perform E (ComparePasswords user p) w1 of
                     (Some err, w2) \<Rightarrow> (Forwarded err 400, w2)
                   | (None, w2) \<Rightarrow>
                      if \<not> comparePasswords E user p
                      then (Forwarded ''email or password is invalid'' 400, w2)
                      else (case perform E (SendToken user) w2 of
                              (Some err, w3) \<Rightarrow> (Forwarded err 400, w3)
                            | (None, w3) \<Rightarrow> (SentToken user, w3)))))
      | _ \<Rightarrow> (Forwarded ''Please provide all the fields'' 400, w))"

subsection \<open>UpdateAccessToken and getUserInfo\<close>

text \<open>
  The assignment \<open>req.user = user\<close> of UpdateAccessToken is read by nothing that
  follows it in the handler and is left out. The wrapper \<open>catchAsyncErrors\<close> only
  forwards what a handler throws, and every handler catches its own errors.
\<close>

definition UpdateAccessToken :: "env \<Rightarrow> token option \<Rightarrow> world \<Rightarrow> response \<times> world" where
  "UpdateAccessToken E refresh_token w =
     (if no_token refresh_token
      then (\<lparr>cookies = [], outcome = Forwarded ''Refresh token not found'' 401\<rparr>, w)
      else case jwt_verify refresh_token (REFRESH_TOKEN E) (now E) of
        Inl err \<Rightarrow> (\<lparr>cookies = [], outcome = Forwarded err 400\<rparr>, w)
      | Inr decoded \<Rightarrow>
         if \<not> truthy decoded
         then (\<lparr>cookies = [], outcome = Forwarded ''Refresh token not found'' 401\<rparr>, w)
         else (case read_prop decoded ''id'' of
            Inl err \<Rightarrow> (\<lparr>cookies = [], outcome = Forwarded err 400\<rparr>, w)
          | Inr key \<Rightarrow>
             (case perform E (RedisGet key) w of
                (Some err, w1) \<Rightarrow> (\<lparr>cookies = [], outcome = Forwarded err 400\<rparr>, w1)
              | (None, w1) \<Rightarrow>
                 (case JSON_parse (redis w1 key) of
                    Inl err \<Rightarrow> (\<lparr>cookies = [], outcome = Forwarded err 400\<rparr>, w1)
                  | Inr user \<Rightarrow>
                     (case read_prop user ''_id'' of
                        Inl err \<Rightarrow> (\<lparr>cookies = [], outcome = Forwarded err 400\<rparr>, w1)
                      | Inr user_id \<Rightarrow>
                         (let accessToken =
                                jwt_sign (JObj [(''id'', user_id)]) (ACCESS_TOKEN E) 300 (now E);
                              refreshToken =
                                jwt_sign (JObj [(''id'', user_id)]) (REFRESH_TOKEN E)
                                  (7 * 86400) (now E)
                          in (\<lparr>cookies = [(''access_token'', accessToken, accessTokenOptions),
                                          (''refresh_token'', refreshToken, refreshTokenOptions)],
                               outcome = Responded 200 (NewAccessToken accessToken)\<rparr>,
                              w1)))))))"


subsection \<open>setReminder\<close>

text \<open>
  The mail that the loop body hands to \<open>sendMail\<close> for a user and an event: the
  template, the user's address, the subject and the data of the template.
\<close>

definition reminderMail :: "env \<Rightarrow> IUser \<Rightarrow> event \<Rightarrow> mail" where
  "reminderMail E user ev =
     \<lparr>template = ''reminderEvent.ejs'', mail_to = email user,
      subject = ''Reminder: '' @ title ev,
      data = ReminderData (name user) ev (FRONTEND_URL E @ ''events/'' @ event_id ev)\<rparr>"

text \<open>
  The body of the loop for one reminder. The first component is the message of an
  exception that leaves the body (none is caught outside the inner try block), and
  \<open>None\<close> when the body ends or continues with the next reminder.
\<close>

definition handleReminder :: "env \<Rightarrow> reminder \<Rightarrow> world \<Rightarrow> string option \<times> world" where
  "handleReminder E r w =
     (case eventId r of
        None \<Rightarrow> (None, w)
      | Some None \<Rightarrow> (None, w)
      | Some (Some ref) \<Rightarrow>
         if ref = [] then (None, w)
         else (case perform E (FetchEvent ref) w of
            (Some err, w1) \<Rightarrow> (Some err, w1)
          | (None, w1) \<Rightarrow>
             (case find (\<lambda>ev. event_id ev = ref) (events w1) of
                None \<Rightarrow> (None, w1)
              | Some ev \<Rightarrow>
                 (case perform E (FindById (userId r)) w1 of
                    (Some err, w2) \<Rightarrow> (Some err, w2)
                  | (None, w2) \<Rightarrow>
                     (case find (\<lambda>u. uid u = userId r) (users w2) of
                        None \<Rightarrow> (None, w2)
                      | Some user \<Rightarrow>
                         (case perform E (SendMail (reminderMail E user ev)) w2 of
                            (Some err, w3) \<Rightarrow> (None, w3)
                          | (None, w3) \<Rightarrow>
                             (case perform E (PatchSent (reminder_id r))
                                     (w3\<lparr>outbox := outbox w3 @ [reminderMail E user ev]\<rparr>) of
                                (Some err, w4) \<Rightarrow> (None, w4)
                              | (None, w4) \<Rightarrow>
                                 (None,
                                  w4\<lparr>reminders :=
                                       map (\<lambda>d. if reminder_id d = reminder_id r
                                                 then d\<lparr>sent := True\<rparr> else d)
                                         (reminders w4)\<rparr>))))))))"

fun remind_loop :: "env \<Rightarrow> reminder list \<Rightarrow> world \<Rightarrow> string option \<times> world" where
  "remind_loop E [] w = (None, w)"
| "remind_loop E (r # rs) w =
     (case handleReminder E r w of
        (Some err, w1) \<Rightarrow> (Some err, w1)
      | (None, w1) \<Rightarrow> remind_loop E rs w1)"

text \<open>
  The query \<open>*[_type == "reminder" && sent == false && reminderTime <= now()]\<close> on the
  reminder documents.
\<close>

definition due_unsent :: "env \<Rightarrow> reminder list \<Rightarrow> reminder list" where
  "due_unsent E ds = filter (\<lambda>d. sent d = False \<and> reminderTime d \<le> now E) ds"

definition setReminder :: "env \<Rightarrow> world \<Rightarrow> outcome \<times> world" where
  "setReminder E w =
     (case perform E FetchReminders w of
        (Some err, w1) \<Rightarrow> (Forwarded err 500, w1)
      | (None, w1) \<Rightarrow>
         (let rs = due_unsent E (reminders w1) in
          if length rs = 0
          then (Responded 200 (Message ''No reminders to send''), w1)
          else (case remind_loop E rs w1 of
                  (Some err, w2) \<Rightarrow> (Forwarded err 500, w2)
                | (None, w2) \<Rightarrow>
                    (Responded 200 (Message ''Reminders processed successfully''), w2))))"

subsection \<open>Reading the call log\<close>

text \<open>The calls made between two states, with and without their results.\<close>

definition new_log :: "world \<Rightarrow> world \<Rightarrow> log" where
  "new_log w w' = drop (length (trace w)) (trace w')"

definition new_calls :: "world \<Rightarrow> world \<Rightarrow> call list" where
  "new_calls w w' = map fst (new_log w w')"

subsection \<open>An example environment and example states\<close>

definition E0 :: env where
  "E0 = \<lparr>ACTIVATION_SECRET = ''activation-secret'', ACCESS_TOKEN = ''access-secret'',
         REFRESH_TOKEN = ''refresh-secret'', FRONTEND_URL = ''https://dayplanner.example/'',
         now = 1000, random = 234,
         isEmail = (\<lambda>s. CHR ''@'' \<in> set s),
         isStrongPassword = (\<lambda>s. 8 \<le> length s),
         comparePasswords = (\<lambda>u p. password u = p),
         newId = (\<lambda>us. toString (length us)),
         storedPassword = (\<lambda>p. p),
         fault = (\<lambda>h c. None)\<rparr>"

definition w0 :: world where
  "w0 = \<lparr>users = [], redis = (\<lambda>k. None), reminders = [], events = [], outbox = [],
         trace = []\<rparr>"

definition ann :: IUser where
  "ann = \<lparr>uid = ''u1'', name = ''Ann'', email = ''ann@x.org'', password = ''Passw0rd!''\<rparr>"

definition w_ann :: world where
  "w_ann = w0\<lparr>users := [ann]\<rparr>"

definition ann_mail :: mail where
  "ann_mail = \<lparr>template = ''activateEmail.ejs'', mail_to = ''ann@x.org'',
               subject = ''Account Activation'', data = ActivationData ''Ann'' ''1234''\<rparr>"

definition ann_payload :: jsval where
  "ann_payload =
     JObj [(''user'', JObj [(''name'', JStr ''Ann''), (''email'', JStr ''ann@x.org''),
                            (''password'', JStr ''Passw0rd!'')]),
           (''activationCode'', JStr ''1234'')]"

definition ann_token :: token where
  "ann_token = Signed ''activation-secret'' ann_payload 1300"


definition E_expired :: env where
  "E_expired = E0\<lparr>now := 1300\<rparr>"

definition ann_doc :: "string \<Rightarrow> IUser" where
  "ann_doc i = \<lparr>uid = i, name = ''Ann'', email = ''ann@x.org'', password = ''Passw0rd!''\<rparr>"

definition refresh_u1 :: token where
  "refresh_u1 = Signed ''refresh-secret'' (JObj [(''id'', JStr ''u1'')]) 5000"

definition session_u1 :: jsval where
  "session_u1 = JObj [(''_id'', JStr ''u1''), (''name'', JStr ''Ann''),
                      (''email'', JStr ''ann@x.org'')]"

definition w_session :: world where
  "w_session =
     w_ann\<lparr>redis := (\<lambda>k. if k = JStr ''u1'' then Some (JSON_stringify session_u1) else None)\<rparr>"

text \<open>
  The reminders whose patch went through according to a log, the reminder documents after
  such patches, and the property of a log that every patch comes right after a mail that
  was sent without an error.
\<close>

definition patched :: "log \<Rightarrow> string set" where
  "patched cs = {i. (PatchSent i, None) \<in> set cs}"

definition mark_sent :: "string set \<Rightarrow> reminder list \<Rightarrow> reminder list" where
  "mark_sent S ds = map (\<lambda>d. if reminder_id d \<in> S then d\<lparr>sent := True\<rparr> else d) ds"

fun pam_from :: "(call \<times> string option) option \<Rightarrow> log \<Rightarrow> bool" where
  "pam_from prev [] = True"
| "pam_from prev (y # l) =
     (((\<exists>i. fst y = PatchSent i) \<longrightarrow> (\<exists>m. prev = Some (SendMail m, None)))
      \<and> pam_from (Some y) l)"

definition patch_after_mail :: "log \<Rightarrow> bool" where
  "patch_after_mail cs = pam_from None cs"

definition bob :: IUser where
  "bob = \<lparr>uid = ''u2'', name = ''Bob'', email = ''bob@x.org'', password = ''S3cret!!''\<rparr>"

definition standup :: event where
  "standup = \<lparr>event_id = ''e1'', title = ''Standup''\<rparr>"


definition r_ann :: reminder where
  "r_ann = \<lparr>reminder_id = ''r1'', eventId = Some (Some ''e1''), userId = ''u1'',
            sent = False, reminderTime = 900\<rparr>"

definition r_bob :: reminder where
  "r_bob = \<lparr>reminder_id = ''r2'', eventId = Some (Some ''e1''), userId = ''u2'',
            sent = False, reminderTime = 950\<rparr>"



definition w_two :: world where
  "w_two = w0\<lparr>users := [ann, bob], reminders := [r_ann, r_bob], events := [standup]\<rparr>"

definition E_smtp :: env where
  "E_smtp = E0\<lparr>fault := (\<lambda>h c. if c = SendMail (reminderMail E0 ann standup)
                                then Some ''SMTP refused'' else None)\<rparr>"

section \<open>Properties\<close>

subsection \<open>Auxiliary facts\<close>

lemma new_log_same [simp]: "new_log w w = []"
  by (simp add: new_log_def)

lemma new_log_app [simp]: "trace w' = trace w @ cs \<Longrightarrow> new_log w w' = cs"
  by (simp add: new_log_def)

lemma toString_1234 [simp]: "toString 1234 = ''1234''"
  by (simp add: toString.simps[of 1234] toString.simps[of 123] toString.simps[of 12]
      toString.simps[of "Suc 0"])

lemma length_toString4:
  assumes "1000 \<le> k" "k < 10000"
  shows "length (toString k) = 4"
proof -
  have a: "\<not> k < 10" "\<not> k div 10 < 10" "\<not> k div 10 div 10 < 10" "k div 10 div 10 div 10 < 10"
    using assms by auto
  show ?thesis
    by (simp add: toString.simps[of k] toString.simps[of "k div 10"]
        toString.simps[of "k div 10 div 10"] toString.simps[of "k div 10 div 10 div 10"] a)
qed


lemma registerUser_ann_fresh:
  "registerUser E0 (Some ''Ann'') (Some ''ann@x.org'') (Some ''Passw0rd!'') w0 =
     (Responded 201 (ActivationSent ''Activation code sent to ann@x.org''
                      (Signed ''activation-secret'' ann_payload 1300)),
      w0\<lparr>outbox := [ann_mail],
         trace := [(FindOne ''ann@x.org'', None), (SendMail ann_mail, None)]\<rparr>)"
  by (simp add: registerUser_def perform_def falsy_def E0_def w0_def createActivationToken_def
      jwt_sign_def ann_mail_def ann_payload_def Let_def)

lemma toString_digits: "set (toString k) \<subseteq> set ''0123456789''"
proof (induction k rule: toString.induct)
  case (1 n)
  have d: "\<And>i. i < 10 \<Longrightarrow> ''0123456789'' ! i \<in> set ''0123456789''"
    by (rule nth_mem) simp
  show ?case
  proof (cases "n < 10")
    case True
    then show ?thesis using d[of n] by (subst toString.simps) simp
  next
    case False
    have "n mod 10 < 10" by simp
    from d[OF this] False "1.IH" show ?thesis
      by (subst toString.simps) simp
  qed
qed



subsection \<open>Registration\<close>



text \<open>
  C10. When \<open>registerUser\<close> answers 201, the body holds the activation token, and the
  payload anybody reads from that token holds the submitted user object with the password
  as it was submitted, and the activation code: the same four decimal digits that the
  delivered activation mail carries.
\<close>

theorem registerUser_response_reveals_code:
  assumes run: "registerUser E (Some nm) (Some em) (Some pw) w = (Responded 201 b, w')"
  shows "b = ActivationSent (''Activation code sent to '' @ em)
               (snd (createActivationToken E
                  (JObj [(''name'', JStr nm), (''email'', JStr em), (''password'', JStr pw)])))
       \<and> jwt_decode (snd (createActivationToken E
                  (JObj [(''name'', JStr nm), (''email'', JStr em), (''password'', JStr pw)]))) =
           Some (JObj [(''user'', JObj [(''name'', JStr nm), (''email'', JStr em),
                                        (''password'', JStr pw)]),
                       (''activationCode'', JStr (toString (random E mod 9000 + 1000)))])
       \<and> outbox w' = outbox w @
            [\<lparr>template = ''activateEmail.ejs'', mail_to = em, subject = ''Account Activation'',
              data = ActivationData nm (toString (random E mod 9000 + 1000))\<rparr>]
       \<and> length (toString (random E mod 9000 + 1000)) = 4
       \<and> set (toString (random E mod 9000 + 1000)) \<subseteq> set ''0123456789''"
proof -
  have "length (toString (random E mod 9000 + 1000)) = 4"
    by (rule length_toString4) simp_all
  with run toString_digits[of "random E mod 9000 + 1000"] show ?thesis
    by (auto simp: registerUser_def perform_def Let_def createActivationToken_def jwt_sign_def
      split: option.splits prod.splits if_splits)
qed

theorem registerUser_response_reveals_code_witness:
  "jwt_decode (snd (createActivationToken E0
      (JObj [(''name'', JStr ''Ann''), (''email'', JStr ''ann@x.org''),
             (''password'', JStr ''Passw0rd!'')]))) = Some ann_payload
   \<and> outbox (w0\<lparr>outbox := [ann_mail],
                 trace := [(FindOne ''ann@x.org'', None), (SendMail ann_mail, None)]\<rparr>) =
       [ann_mail]
   \<and> length (toString (random E0 mod 9000 + 1000)) = 4"
  using registerUser_response_reveals_code [OF registerUser_ann_fresh]
  by (simp add: E0_def w0_def ann_payload_def ann_mail_def)

subsection \<open>Activation\<close>

text \<open>
  C2. \<open>activateUser\<close> verifies the submitted token against the activation secret and
  forwards the error when the verification throws. A token made by
  \<open>createActivationToken\<close> verifies, under the secret it was made with, strictly before
  300 seconds have passed and is rejected as expired from then on. When the token
  verifies and the submitted code is not the code of the token, the handler forwards
  'Invalid Activation Code' and leaves the state as it is. When the code is the code of
  the token, the token carries a user with a name, an email and a password, and the
  collection accepts the new document, the handler calls \<open>userModel.create\<close> with these
  three, the document is added, and the answer is 201 'Account activated successfully'.
\<close>

theorem activateUser_spec:
  "(jwt_verify tok (ACTIVATION_SECRET E) (now E) = Inl err
      \<longrightarrow> activateUser E tok code w = (Forwarded err 500, w))
   \<and> jwt_verify (Some (snd (createActivationToken E' u'))) (ACTIVATION_SECRET E') t =
       (if now E' + 300 \<le> t then Inl ''jwt expired''
        else Inr (JObj [(''user'', u'),
                        (''activationCode'', JStr (fst (createActivationToken E' u')))]))
   \<and> (jwt_verify tok (ACTIVATION_SECRET E) (now E) = Inr v
        \<and> read_prop v ''activationCode'' = Inr c \<and> strict_neq code c
      \<longrightarrow> activateUser E tok code w = (Forwarded ''Invalid Activation Code'' 400, w))
   \<and> (jwt_verify tok (ACTIVATION_SECRET E) (now E) = Inr v
        \<and> read_prop v ''activationCode'' = Inr c \<and> \<not> strict_neq code c
        \<and> read_prop v ''user'' = Inr u
        \<and> read_prop u ''name'' = Inr (JStr n) \<and> read_prop u ''email'' = Inr (JStr e)
        \<and> read_prop u ''password'' = Inr (JStr p)
        \<and> fault E (trace w) (Create (JStr n) (JStr e) (JStr p)) = None
      \<longrightarrow> activateUser E tok code w =
            (Responded 201
               (Activated \<lparr>uid = newId E (users w), name = n, email = e,
                           password = storedPassword E p\<rparr>
                  ''Account activated successfully''),
             w\<lparr>trace := trace w @ [(Create (JStr n) (JStr e) (JStr p), None)],
               users := users w @ [\<lparr>uid = newId E (users w), name = n, email = e,
                                    password = storedPassword E p\<rparr>]\<rparr>))"
  by (simp add: activateUser_def userModel_create_def perform_def Let_def
      createActivationToken_def jwt_sign_def)

theorem activateUser_spec_witness:
  "activateUser E0 (Some ann_token) (JStr ''1234'') w0 =
     (Responded 201 (Activated (ann_doc ''0'') ''Account activated successfully''),
      w0\<lparr>trace := [(Create (JStr ''Ann'') (JStr ''ann@x.org'') (JStr ''Passw0rd!''), None)],
         users := [ann_doc ''0'']\<rparr>)
   \<and> activateUser E0 (Some ann_token) (JStr ''4321'') w0 =
       (Forwarded ''Invalid Activation Code'' 400, w0)
   \<and> activateUser E_expired (Some ann_token) (JStr ''1234'') w0 =
       (Forwarded ''jwt expired'' 500, w0)"
  using
    activateUser_spec [where tok = "Some ann_token" and E = E0 and code = "JStr ''1234''"
      and w = w0 and v = ann_payload and c = "JStr ''1234''"
      and u = "JObj [(''name'', JStr ''Ann''), (''email'', JStr ''ann@x.org''),
                     (''password'', JStr ''Passw0rd!'')]"
      and n = "''Ann''" and e = "''ann@x.org''" and p = "''Passw0rd!''"]
    activateUser_spec [where tok = "Some ann_token" and E = E0 and code = "JStr ''4321''"
      and w = w0 and v = ann_payload and c = "JStr ''1234''"]
    activateUser_spec [where tok = "Some ann_token" and E = E_expired
      and code = "JStr ''1234''" and w = w0 and err = "''jwt expired''"]
  by (simp add: ann_token_def ann_payload_def E0_def E_expired_def w0_def ann_doc_def
      toString.simps[of 0])



lemma find_SomeD: "find P xs = Some x \<Longrightarrow> P x \<and> x \<in> set xs"
  by (induction xs) (auto split: if_splits)

subsection \<open>Login\<close>

text \<open>
  C4. Let \<open>userLogin\<close> answer \<open>out\<close> and leave the state \<open>w'\<close>. When the password or
  the email is absent, \<open>out\<close> is the 400 error 'Please provide all the fields'. When no
  user has the email, or the first user with the email fails the password comparison,
  \<open>out\<close> is an error forwarded with status 400 and \<open>sendToken\<close> is not called; when
  none of the calls made has thrown, the message is 'email or password is invalid' in
  both cases. When \<open>sendToken\<close> is called or has answered, the first user with the email
  exists, the comparison holds, and \<open>sendToken\<close> was called with that user.
\<close>

theorem userLogin_checks:
  assumes run: "userLogin E p e w = (out, w')"
  shows "(falsy p \<or> falsy e \<longrightarrow> out = Forwarded ''Please provide all the fields'' 400 \<and> w' = w)
       \<and> (\<forall>a q. e = Some a \<and> p = Some q \<and> a \<noteq> [] \<and> q \<noteq> []
              \<and> ((\<forall>u \<in> set (users w). email u \<noteq> a)
                  \<or> (\<exists>u. find (\<lambda>u. email u = a) (users w) = Some u \<and> \<not> comparePasswords E u q))
            \<longrightarrow> (\<exists>msg. out = Forwarded msg 400)
                \<and> (\<forall>u. SendToken u \<notin> set (new_calls w w'))
                \<and> ((\<forall>x \<in> set (new_log w w'). snd x = None)
                     \<longrightarrow> out = Forwarded ''email or password is invalid'' 400))
       \<and> ((\<exists>u. out = SentToken u) \<or> (\<exists>u. SendToken u \<in> set (new_calls w w'))
            \<longrightarrow> (\<exists>a q u. e = Some a \<and> p = Some q
                    \<and> find (\<lambda>u. email u = a) (users w) = Some u \<and> comparePasswords E u q
                    \<and> SendToken u \<in> set (new_calls w w')
                    \<and> (\<forall>u'. out = SentToken u' \<longrightarrow> u' = u)))"
  using run
  by (auto simp: userLogin_def perform_def Let_def falsy_def find_None_iff new_calls_def
      new_log_def split: option.splits prod.splits if_splits dest: find_SomeD)

theorem userLogin_checks_witness:
  "find (\<lambda>u. email u = ''ann@x.org'') (users w_ann) = Some ann
   \<and> comparePasswords E0 ann ''Passw0rd!''
   \<and> fst (userLogin E0 (Some ''Passw0rd!'') (Some ''ann@x.org'') w_ann) = SentToken ann
   \<and> fst (userLogin E0 (Some ''wrong'') (Some ''ann@x.org'') w_ann) =
       Forwarded ''email or password is invalid'' 400
   \<and> fst (userLogin E0 (Some ''Passw0rd!'') (Some ''bob@x.org'') w_ann) =
       Forwarded ''email or password is invalid'' 400"
proof -
  have r1: "userLogin E0 (Some ''Passw0rd!'') (Some ''ann@x.org'') w_ann =
      (SentToken ann,
       w_ann\<lparr>trace := [(FindOne ''ann@x.org'', None),
                        (ComparePasswords ann ''Passw0rd!'', None), (SendToken ann, None)]\<rparr>)"
    by (simp add: userLogin_def perform_def falsy_def E0_def w_ann_def w0_def ann_def)
  have r2: "userLogin E0 (Some ''wrong'') (Some ''ann@x.org'') w_ann =
      (Forwarded ''email or password is invalid'' 400,
       w_ann\<lparr>trace := [(FindOne ''ann@x.org'', None), (ComparePasswords ann ''wrong'', None)]\<rparr>)"
    by (simp add: userLogin_def perform_def falsy_def E0_def w_ann_def w0_def ann_def)
  have r3: "userLogin E0 (Some ''Passw0rd!'') (Some ''bob@x.org'') w_ann =
      (Forwarded ''email or password is invalid'' 400,
       w_ann\<lparr>trace := [(FindOne ''bob@x.org'', None)]\<rparr>)"
    by (simp add: userLogin_def perform_def falsy_def E0_def w_ann_def w0_def ann_def)
  from userLogin_checks [OF r1] userLogin_checks [OF r2] userLogin_checks [OF r3] r1 r2 r3
  show ?thesis
    by (simp add: E0_def w_ann_def w0_def ann_def)
qed

subsection \<open>Token rotation and session lookup\<close>

text \<open>
  C1, as the claim states it, fails: a refresh token that verifies, for an id with no
  session in the cache, is answered by a forwarded 400 error and no cookie.
\<close>

theorem UpdateAccessToken_no_session_counterexample:
  "jwt_verify (Some refresh_u1) (REFRESH_TOKEN E0) (now E0) = Inr (JObj [(''id'', JStr ''u1'')])
   \<and> UpdateAccessToken E0 (Some refresh_u1) w0 =
       (\<lparr>cookies = [],
         outcome = Forwarded (''Cannot read properties of null (reading '' @ quote ''_id'' @ '')'') 400\<rparr>,
        w0\<lparr>trace := [(RedisGet (JStr ''u1''), None)]\<rparr>)"
  by (simp add: UpdateAccessToken_def perform_def refresh_u1_def E0_def w0_def)

text \<open>
  C1, amended. When the \<open>refresh_token\<close> cookie is absent, \<open>UpdateAccessToken\<close>
  forwards the 401 error 'Refresh token not found', sets no cookie and leaves the state as
  it is. When the cookie verifies against the refresh-token secret with a payload that is
  not falsy, the cache lookup under the payload's id goes through and holds the JSON text
  of a session with an \<open>_id\<close> to read, the handler signs an access token expiring in 300
  seconds and a refresh token expiring in 7 days for that \<open>_id\<close>, sets both as cookies
  and answers 200 with the access token.
\<close>

theorem UpdateAccessToken_rotation:
  "(no_token tok
      \<longrightarrow> UpdateAccessToken E tok w =
            (\<lparr>cookies = [], outcome = Forwarded ''Refresh token not found'' 401\<rparr>, w))
   \<and> (jwt_verify tok (REFRESH_TOKEN E) (now E) = Inr decoded \<and> truthy decoded
        \<and> read_prop decoded ''id'' = Inr key
        \<and> fault E (trace w) (RedisGet key) = None
        \<and> redis w key = Some (JSON_stringify user)
        \<and> read_prop user ''_id'' = Inr user_id
      \<longrightarrow> UpdateAccessToken E tok w =
            (\<lparr>cookies =
                [(''access_token'',
                  Signed (ACCESS_TOKEN E) (JObj [(''id'', user_id)]) (now E + 300),
                  accessTokenOptions),
                 (''refresh_token'',
                  Signed (REFRESH_TOKEN E) (JObj [(''id'', user_id)]) (now E + 7 * 86400),
                  refreshTokenOptions)],
              outcome = Responded 200
                (NewAccessToken
                   (Signed (ACCESS_TOKEN E) (JObj [(''id'', user_id)]) (now E + 300)))\<rparr>,
             w\<lparr>trace := trace w @ [(RedisGet key, None)]\<rparr>))"
proof -
  have nt: "jwt_verify tok (REFRESH_TOKEN E) (now E) = Inr decoded \<Longrightarrow> \<not> no_token tok"
    by (cases "(tok, REFRESH_TOKEN E, now E)" rule: jwt_verify.cases) auto
  show ?thesis
    using nt by (auto simp: UpdateAccessToken_def perform_def Let_def jwt_sign_def)
qed

theorem UpdateAccessToken_rotation_witness:
  "UpdateAccessToken E0 None w0 =
     (\<lparr>cookies = [], outcome = Forwarded ''Refresh token not found'' 401\<rparr>, w0)
   \<and> UpdateAccessToken E0 (Some refresh_u1) w_session =
       (\<lparr>cookies =
           [(''access_token'', Signed ''access-secret'' (JObj [(''id'', JStr ''u1'')]) 1300,
             accessTokenOptions),
            (''refresh_token'', Signed ''refresh-secret'' (JObj [(''id'', JStr ''u1'')]) 605800,
             refreshTokenOptions)],
         outcome = Responded 200
           (NewAccessToken (Signed ''access-secret'' (JObj [(''id'', JStr ''u1'')]) 1300))\<rparr>,
        w_session\<lparr>trace := [(RedisGet (JStr ''u1''), None)]\<rparr>)"
  using
    UpdateAccessToken_rotation [where tok = None and E = E0 and w = w0]
    UpdateAccessToken_rotation [where tok = "Some refresh_u1" and E = E0 and w = w_session
      and decoded = "JObj [(''id'', JStr ''u1'')]" and key = "JStr ''u1''"
      and user = session_u1 and user_id = "JStr ''u1''"]
  by (simp add: refresh_u1_def session_u1_def w_session_def w_ann_def w0_def E0_def)



subsection \<open>The reminder routine\<close>

lemma pam_from_None: "pam_from None l \<Longrightarrow> pam_from q l"
  by (cases l) auto

lemma pam_from_append:
  "pam_from p a \<Longrightarrow> pam_from None b \<Longrightarrow> pam_from p (a @ b)"
  by (induction a arbitrary: p) (auto intro: pam_from_None)

lemma pam_append: "patch_after_mail a \<Longrightarrow> patch_after_mail b \<Longrightarrow> patch_after_mail (a @ b)"
  by (simp add: patch_after_mail_def pam_from_append)

lemma pam_from_nth:
  "pam_from p l \<Longrightarrow> k < length l \<Longrightarrow> fst (l ! k) = PatchSent i
     \<Longrightarrow> (k = 0 \<and> (\<exists>m. p = Some (SendMail m, None)))
         \<or> (0 < k \<and> (\<exists>m. l ! (k - 1) = (SendMail m, None)))"
proof (induction l arbitrary: p k)
  case Nil
  then show ?case by simp
next
  case (Cons y l)
  show ?case
  proof (cases k)
    case 0
    with Cons.prems show ?thesis by auto
  next
    case (Suc j)
    with Cons.prems have "pam_from (Some y) l" "j < length l" "fst (l ! j) = PatchSent i"
      by simp_all
    from Cons.IH[OF this] Suc show ?thesis
      by (cases j) auto
  qed
qed

lemma pam_nth:
  "patch_after_mail l \<Longrightarrow> k < length l \<Longrightarrow> fst (l ! k) = PatchSent i
     \<Longrightarrow> 0 < k \<and> (\<exists>m. l ! (k - 1) = (SendMail m, None))"
  using pam_from_nth[of None l k i] by (auto simp: patch_after_mail_def)

lemma mark_sent_empty [simp]: "mark_sent {} ds = ds"
  by (simp add: mark_sent_def)

lemma mark_sent_twice: "mark_sent B (mark_sent A ds) = mark_sent (A \<union> B) ds"
  by (auto simp: mark_sent_def)

lemma patched_append: "patched (a @ b) = patched a \<union> patched b"
  by (auto simp: patched_def)

lemma patched_Nil [simp]: "patched [] = {}"
  by (simp add: patched_def)

lemma mail_to_reminderMail [simp]: "mail_to (reminderMail E u ev) = email u"
  by (simp add: reminderMail_def)

lemma handleReminder_trace:
  assumes "handleReminder E r w = (x, w')"
  shows "trace w' = trace w @ new_log w w'"
  using assms
  by (auto simp: handleReminder_def perform_def Let_def new_log_def
      split: option.splits prod.splits if_splits)

lemma handleReminder_frame:
  assumes "handleReminder E r w = (x, w')"
  shows "users w' = users w \<and> events w' = events w \<and> redis w' = redis w"
  using assms
  by (auto simp: handleReminder_def perform_def Let_def
      split: option.splits prod.splits if_splits)

lemma handleReminder_pam:
  assumes "handleReminder E r w = (x, w')"
  shows "patch_after_mail (new_log w w')"
  using assms
  by (auto simp: handleReminder_def perform_def Let_def new_log_def patch_after_mail_def
      split: option.splits prod.splits if_splits)

lemma handleReminder_patch_id:
  assumes "handleReminder E r w = (x, w')" "(PatchSent i, res) \<in> set (new_log w w')"
  shows "i = reminder_id r"
  using assms
  by (auto simp: handleReminder_def perform_def Let_def new_log_def
      split: option.splits prod.splits if_splits)

lemma handleReminder_mail_to:
  assumes "handleReminder E r w = (x, w')" "(SendMail m, res) \<in> set (new_log w w')"
  shows "\<exists>u \<in> set (users w). uid u = userId r \<and> mail_to m = email u"
  using assms
  by (auto simp: handleReminder_def perform_def Let_def new_log_def
      split: option.splits prod.splits if_splits dest!: find_SomeD)

lemma handleReminder_reminders:
  assumes "handleReminder E r w = (x, w')"
  shows "reminders w' = mark_sent (patched (new_log w w')) (reminders w)"
  using assms
  by (auto simp: handleReminder_def perform_def Let_def new_log_def patched_def mark_sent_def
      split: option.splits prod.splits if_splits)


lemma handleReminder_outbox_fail:
  assumes "handleReminder E r w = (x, w')" "(SendMail m, Some err) \<in> set (new_log w w')"
  shows "x = None \<and> reminders w' = reminders w \<and> outbox w' = outbox w
         \<and> (\<forall>i res. (PatchSent i, res) \<notin> set (new_log w w'))"
  using assms
  by (auto simp: handleReminder_def perform_def Let_def new_log_def
      split: option.splits prod.splits if_splits)

lemma handleReminder_patch_mail:
  assumes "handleReminder E r w = (x, w')" "(PatchSent i, res) \<in> set (new_log w w')"
  shows "\<exists>u ev. (SendMail (reminderMail E u ev), None) \<in> set (new_log w w')
           \<and> uid u = userId r \<and> outbox w' = outbox w @ [reminderMail E u ev]"
  using assms
  apply (auto simp: handleReminder_def perform_def Let_def new_log_def
      split: option.splits prod.splits if_splits dest!: find_SomeD)
   apply blast+
  done

lemma handleReminder_changed:
  assumes "handleReminder E r w = (x, w')" "reminders w' \<noteq> reminders w"
  shows "(PatchSent (reminder_id r), None) \<in> set (new_log w w')"
  using assms
  by (auto simp: handleReminder_def perform_def Let_def new_log_def
      split: option.splits prod.splits if_splits)



lemma remind_loop_effect:
  "remind_loop E rs w = (x, w') \<Longrightarrow>
     \<exists>cs. trace w' = trace w @ cs \<and> patch_after_mail cs
           \<and> reminders w' = mark_sent (patched cs) (reminders w)
           \<and> users w' = users w
           \<and> (\<forall>i res. (PatchSent i, res) \<in> set cs \<longrightarrow> i \<in> reminder_id ` set rs)
           \<and> (\<forall>m res. (SendMail m, res) \<in> set cs
                \<longrightarrow> (\<exists>d \<in> set rs. \<exists>u \<in> set (users w). uid u = userId d \<and> mail_to m = email u))"
proof (induction rs arbitrary: w x w')
  case Nil
  then show ?case by (auto simp: patch_after_mail_def)
next
  case (Cons r rs)
  obtain y w1 where h: "handleReminder E r w = (y, w1)" by (cases "handleReminder E r w")
  define cs1 where "cs1 = new_log w w1"
  have c1: "trace w1 = trace w @ cs1" "patch_after_mail cs1"
        "reminders w1 = mark_sent (patched cs1) (reminders w)"
        "users w1 = users w"
        "\<forall>i res. (PatchSent i, res) \<in> set cs1 \<longrightarrow> i = reminder_id r"
        "\<forall>m res. (SendMail m, res) \<in> set cs1
                \<longrightarrow> (\<exists>u \<in> set (users w). uid u = userId r \<and> mail_to m = email u)"
    unfolding cs1_def
    using handleReminder_trace[OF h] handleReminder_pam[OF h] handleReminder_reminders[OF h]
      handleReminder_frame[OF h] handleReminder_patch_id[OF h] handleReminder_mail_to[OF h]
    by blast+
  show ?case
  proof (cases y)
    case (Some err)
    with h Cons.prems have "w' = w1" by simp
    with c1 show ?thesis by (intro exI[of _ cs1]) auto
  next
    case None
    with h Cons.prems have "remind_loop E rs w1 = (x, w')" by simp
    from Cons.IH[OF this] obtain cs2 where
      c2: "trace w' = trace w1 @ cs2" "patch_after_mail cs2"
        "reminders w' = mark_sent (patched cs2) (reminders w1)"
        "users w' = users w1"
        "\<forall>i res. (PatchSent i, res) \<in> set cs2 \<longrightarrow> i \<in> reminder_id ` set rs"
        "\<forall>m res. (SendMail m, res) \<in> set cs2
                \<longrightarrow> (\<exists>d \<in> set rs. \<exists>u \<in> set (users w1). uid u = userId d \<and> mail_to m = email u)"
      by blast
    have t: "trace w' = trace w @ (cs1 @ cs2)" using c1(1) c2(1) by simp
    have p: "patch_after_mail (cs1 @ cs2)" using c1(2) c2(2) by (rule pam_append)
    have r: "reminders w' = mark_sent (patched (cs1 @ cs2)) (reminders w)"
      using c1(3) c2(3) by (simp add: mark_sent_twice patched_append)
    have u: "users w' = users w" using c1(4) c2(4) by simp
    have i: "\<forall>i res. (PatchSent i, res) \<in> set (cs1 @ cs2) \<longrightarrow> i \<in> reminder_id ` set (r # rs)"
      using c1(5) c2(5) by auto
    have m: "\<forall>m res. (SendMail m, res) \<in> set (cs1 @ cs2)
                \<longrightarrow> (\<exists>d \<in> set (r # rs). \<exists>u \<in> set (users w). uid u = userId d \<and> mail_to m = email u)"
    proof (intro allI impI)
      fix m res assume "(SendMail m, res) \<in> set (cs1 @ cs2)"
      then consider "(SendMail m, res) \<in> set cs1" | "(SendMail m, res) \<in> set cs2" by auto
      then show "\<exists>d \<in> set (r # rs). \<exists>u \<in> set (users w). uid u = userId d \<and> mail_to m = email u"
      proof cases
        case 1
        with c1(6) show ?thesis by auto
      next
        case 2
        with c2(6) c1(4) show ?thesis by auto
      qed
    qed
    from t p r u i m show ?thesis by blast
  qed
qed

lemma setReminder_effect:
  assumes "setReminder E w = (out, w')"
  shows "\<exists>res cs. trace w' = trace w @ (FetchReminders, res) # cs
           \<and> patch_after_mail ((FetchReminders, res) # cs)
           \<and> reminders w' = mark_sent (patched ((FetchReminders, res) # cs)) (reminders w)
           \<and> users w' = users w
           \<and> (\<forall>i r. (PatchSent i, r) \<in> set cs
                \<longrightarrow> i \<in> reminder_id ` set (due_unsent E (reminders w)))
           \<and> (\<forall>m r. (SendMail m, r) \<in> set cs
                \<longrightarrow> (\<exists>d \<in> set (due_unsent E (reminders w)). \<exists>u \<in> set (users w).
                        uid u = userId d \<and> mail_to m = email u))"
proof (cases "fault E (trace w) FetchReminders")
  case (Some err)
  with assms have "w' = w\<lparr>trace := trace w @ [(FetchReminders, Some err)]\<rparr>"
    by (simp add: setReminder_def perform_def Let_def)
  then show ?thesis
    by (intro exI[of _ "Some err"] exI[of _ "[]"]) (simp add: patched_def patch_after_mail_def)
next
  case None
  define w1 where "w1 = w\<lparr>trace := trace w @ [(FetchReminders, None)]\<rparr>"
  show ?thesis
  proof (cases "due_unsent E (reminders w) = []")
    case True
    with None assms have "w' = w1"
      by (simp add: setReminder_def perform_def w1_def Let_def)
    then show ?thesis
      by (intro exI[of _ None] exI[of _ "[]"])
        (simp add: patched_def patch_after_mail_def w1_def)
  next
    case False
    obtain y w2 where l: "remind_loop E (due_unsent E (reminders w)) w1 = (y, w2)"
      by (cases "remind_loop E (due_unsent E (reminders w)) w1")
    with None False assms have "w' = w2"
      by (auto simp: setReminder_def perform_def w1_def Let_def split: option.splits)
    with remind_loop_effect[OF l] obtain cs where
      c: "trace w' = trace w1 @ cs" "patch_after_mail cs"
         "reminders w' = mark_sent (patched cs) (reminders w1)" "users w' = users w1"
         "\<forall>i res. (PatchSent i, res) \<in> set cs
            \<longrightarrow> i \<in> reminder_id ` set (due_unsent E (reminders w))"
         "\<forall>m res. (SendMail m, res) \<in> set cs
            \<longrightarrow> (\<exists>d \<in> set (due_unsent E (reminders w)). \<exists>u \<in> set (users w1).
                    uid u = userId d \<and> mail_to m = email u)"
      by blast
    have p: "patch_after_mail ((FetchReminders, None) # cs)"
      using pam_append[of "[(FetchReminders, None)]" cs] c(2)
      by (simp add: patch_after_mail_def)
    have q: "patched ((FetchReminders, None) # cs) = patched cs"
      by (auto simp: patched_def)
    from c p q show ?thesis
      by (intro exI[of _ None] exI[of _ cs]) (simp add: w1_def)
  qed
qed

lemma setReminder_smtp_run:
  "setReminder E_smtp w_two =
     (Responded 200 (Message ''Reminders processed successfully''),
      w_two\<lparr>outbox := [reminderMail E0 bob standup],
            trace := [(FetchReminders, None),
                      (FetchEvent ''e1'', None), (FindById ''u1'', None),
                      (SendMail (reminderMail E0 ann standup), Some ''SMTP refused''),
                      (FetchEvent ''e1'', None), (FindById ''u2'', None),
                      (SendMail (reminderMail E0 bob standup), None),
                      (PatchSent ''r2'', None)],
            reminders := [r_ann, r_bob\<lparr>sent := True\<rparr>]\<rparr>)"
  by (simp add: setReminder_def due_unsent_def handleReminder_def perform_def Let_def
      E_smtp_def E0_def w_two_def w0_def r_ann_def r_bob_def standup_def ann_def bob_def
      reminderMail_def)




text \<open>
  C6. When the fetch of the reminders goes through and no reminder is unsent and due,
  \<open>setReminder\<close> answers 200 'No reminders to send' and changes nothing but the log:
  no mail, no patch. In every run the first call is the fetch of the reminders, every
  patch is for the id of a reminder that was unsent and due, and every mail goes to the
  user of such a reminder.
\<close>

theorem setReminder_nothing_due:
  "(fault E (trace w) FetchReminders = None \<and> due_unsent E (reminders w) = []
      \<longrightarrow> setReminder E w =
            (Responded 200 (Message ''No reminders to send''),
             w\<lparr>trace := trace w @ [(FetchReminders, None)]\<rparr>))
   \<and> (setReminder E w = (out, w')
      \<longrightarrow> (\<exists>res. take 1 (new_log w w') = [(FetchReminders, res)])
        \<and> (\<forall>i res. (PatchSent i, res) \<in> set (new_log w w')
             \<longrightarrow> (\<exists>d \<in> set (reminders w).
                    reminder_id d = i \<and> sent d = False \<and> reminderTime d \<le> now E))
        \<and> (\<forall>m res. (SendMail m, res) \<in> set (new_log w w')
             \<longrightarrow> (\<exists>d \<in> set (reminders w). sent d = False \<and> reminderTime d \<le> now E
                    \<and> (\<exists>u \<in> set (users w). uid u = userId d \<and> mail_to m = email u))))"
proof -
  have a: "fault E (trace w) FetchReminders = None \<and> due_unsent E (reminders w) = []
      \<longrightarrow> setReminder E w =
            (Responded 200 (Message ''No reminders to send''),
             w\<lparr>trace := trace w @ [(FetchReminders, None)]\<rparr>)"
    by (simp add: setReminder_def perform_def Let_def)
  have b: "(\<exists>res. take 1 (new_log w w') = [(FetchReminders, res)])
        \<and> (\<forall>i res. (PatchSent i, res) \<in> set (new_log w w')
             \<longrightarrow> (\<exists>d \<in> set (reminders w).
                    reminder_id d = i \<and> sent d = False \<and> reminderTime d \<le> now E))
        \<and> (\<forall>m res. (SendMail m, res) \<in> set (new_log w w')
             \<longrightarrow> (\<exists>d \<in> set (reminders w). sent d = False \<and> reminderTime d \<le> now E
                    \<and> (\<exists>u \<in> set (users w). uid u = userId d \<and> mail_to m = email u)))"
    if run: "setReminder E w = (out, w')"
  proof -
    from setReminder_effect[OF run] obtain res cs where
      c: "trace w' = trace w @ (FetchReminders, res) # cs"
         "\<forall>i r. (PatchSent i, r) \<in> set cs
                \<longrightarrow> i \<in> reminder_id ` set (due_unsent E (reminders w))"
         "\<forall>m r. (SendMail m, r) \<in> set cs
                \<longrightarrow> (\<exists>d \<in> set (due_unsent E (reminders w)). \<exists>u \<in> set (users w).
                        uid u = userId d \<and> mail_to m = email u)"
      by blast
    have l: "new_log w w' = (FetchReminders, res) # cs" using c(1) by simp
    have p: "\<forall>i res. (PatchSent i, res) \<in> set (new_log w w')
             \<longrightarrow> (\<exists>d \<in> set (reminders w).
                    reminder_id d = i \<and> sent d = False \<and> reminderTime d \<le> now E)"
      using c(2) by (auto simp: l due_unsent_def)
    have m: "\<forall>m res. (SendMail m, res) \<in> set (new_log w w')
             \<longrightarrow> (\<exists>d \<in> set (reminders w). sent d = False \<and> reminderTime d \<le> now E
                    \<and> (\<exists>u \<in> set (users w). uid u = userId d \<and> mail_to m = email u))"
      using c(3) by (fastforce simp: l due_unsent_def)
    from l p m show ?thesis by simp
  qed
  from a b show ?thesis by blast
qed

theorem setReminder_nothing_due_witness:
  "setReminder E0 w_ann =
     (Responded 200 (Message ''No reminders to send''),
      w_ann\<lparr>trace := [(FetchReminders, None)]\<rparr>)
   \<and> (\<exists>res. take 1 (new_log w_two (snd (setReminder E_smtp w_two))) = [(FetchReminders, res)])"
proof -
  have a: "setReminder E0 w_ann =
     (Responded 200 (Message ''No reminders to send''),
      w_ann\<lparr>trace := [(FetchReminders, None)]\<rparr>)"
    using setReminder_nothing_due [where E = E0 and w = w_ann, THEN conjunct1]
    by (simp add: E0_def w_ann_def w0_def due_unsent_def)
  have b: "\<exists>res. take 1 (new_log w_two (snd (setReminder E_smtp w_two))) = [(FetchReminders, res)]"
    using setReminder_nothing_due [where E = E_smtp and w = w_two
        and out = "fst (setReminder E_smtp w_two)" and w' = "snd (setReminder E_smtp w_two)",
        THEN conjunct2]
    by simp
  from a b show ?thesis by (intro conjI)
qed

text \<open>
  C9. In one pass of the loop body: when the mail throws, no patch is called, the
  reminders and the delivered mails are as before and the loop goes on; a patch is called
  only for the reminder at hand, after its mail has been sent without an error and
  delivered; and the reminders change only when the patch went through. In a whole run of
  \<open>setReminder\<close>: every patch in the log comes right after a mail that was sent
  without an error, the reminders afterwards are the reminders before with exactly those
  marked sent whose patch went through, and a reminder whose patch did not go through is
  still there unchanged.
\<close>

theorem reminder_marked_only_after_mail:
  "(handleReminder E r v = (x, v')
      \<longrightarrow> (\<forall>m err. (SendMail m, Some err) \<in> set (new_log v v')
             \<longrightarrow> x = None \<and> reminders v' = reminders v \<and> outbox v' = outbox v
                \<and> (\<forall>i res. (PatchSent i, res) \<notin> set (new_log v v')))
        \<and> (\<forall>i res. (PatchSent i, res) \<in> set (new_log v v')
             \<longrightarrow> i = reminder_id r
                \<and> (\<exists>u ev. (SendMail (reminderMail E u ev), None) \<in> set (new_log v v')
                      \<and> uid u = userId r \<and> outbox v' = outbox v @ [reminderMail E u ev]))
        \<and> (reminders v' \<noteq> reminders v
             \<longrightarrow> (PatchSent (reminder_id r), None) \<in> set (new_log v v')))
   \<and> (setReminder E w = (out, w')
      \<longrightarrow> (\<forall>k i. k < length (new_log w w') \<and> fst (new_log w w' ! k) = PatchSent i
             \<longrightarrow> 0 < k \<and> (\<exists>m. new_log w w' ! (k - 1) = (SendMail m, None)))
        \<and> reminders w' =
            map (\<lambda>d. if (PatchSent (reminder_id d), None) \<in> set (new_log w w')
                      then d\<lparr>sent := True\<rparr> else d) (reminders w)
        \<and> (\<forall>d \<in> set (reminders w). (PatchSent (reminder_id d), None) \<notin> set (new_log w w')
             \<longrightarrow> d \<in> set (reminders w')))"
proof -
  have item: "(\<forall>m err. (SendMail m, Some err) \<in> set (new_log v v')
             \<longrightarrow> x = None \<and> reminders v' = reminders v \<and> outbox v' = outbox v
                \<and> (\<forall>i res. (PatchSent i, res) \<notin> set (new_log v v')))
        \<and> (\<forall>i res. (PatchSent i, res) \<in> set (new_log v v')
             \<longrightarrow> i = reminder_id r
                \<and> (\<exists>u ev. (SendMail (reminderMail E u ev), None) \<in> set (new_log v v')
                      \<and> uid u = userId r \<and> outbox v' = outbox v @ [reminderMail E u ev]))
        \<and> (reminders v' \<noteq> reminders v
             \<longrightarrow> (PatchSent (reminder_id r), None) \<in> set (new_log v v'))"
    if h: "handleReminder E r v = (x, v')"
    using handleReminder_outbox_fail[OF h] handleReminder_patch_id[OF h]
      handleReminder_patch_mail[OF h] handleReminder_changed[OF h]
    by blast
  have routine: "(\<forall>k i. k < length (new_log w w') \<and> fst (new_log w w' ! k) = PatchSent i
             \<longrightarrow> 0 < k \<and> (\<exists>m. new_log w w' ! (k - 1) = (SendMail m, None)))
        \<and> reminders w' =
            map (\<lambda>d. if (PatchSent (reminder_id d), None) \<in> set (new_log w w')
                      then d\<lparr>sent := True\<rparr> else d) (reminders w)
        \<and> (\<forall>d \<in> set (reminders w). (PatchSent (reminder_id d), None) \<notin> set (new_log w w')
             \<longrightarrow> d \<in> set (reminders w'))"
    if run: "setReminder E w = (out, w')"
  proof -
    from setReminder_effect[OF run] obtain res cs where
      c: "trace w' = trace w @ (FetchReminders, res) # cs"
         "patch_after_mail ((FetchReminders, res) # cs)"
         "reminders w' = mark_sent (patched ((FetchReminders, res) # cs)) (reminders w)"
      by blast
    have l: "new_log w w' = (FetchReminders, res) # cs" using c(1) by simp
    have p: "\<forall>k i. k < length (new_log w w') \<and> fst (new_log w w' ! k) = PatchSent i
             \<longrightarrow> 0 < k \<and> (\<exists>m. new_log w w' ! (k - 1) = (SendMail m, None))"
      using pam_nth[OF c(2)] unfolding l by blast
    have m: "reminders w' =
            map (\<lambda>d. if (PatchSent (reminder_id d), None) \<in> set (new_log w w')
                      then d\<lparr>sent := True\<rparr> else d) (reminders w)"
      using c(3) unfolding l by (simp add: mark_sent_def patched_def)
    have k: "\<forall>d \<in> set (reminders w). (PatchSent (reminder_id d), None) \<notin> set (new_log w w')
             \<longrightarrow> d \<in> set (reminders w')"
    proof (intro ballI impI)
      fix d assume d: "d \<in> set (reminders w)"
        and n: "(PatchSent (reminder_id d), None) \<notin> set (new_log w w')"
      let ?f = "\<lambda>d. if (PatchSent (reminder_id d), None) \<in> set (new_log w w')
                      then d\<lparr>sent := True\<rparr> else d"
      from n have "?f d = d" by simp
      moreover from d have "?f d \<in> ?f ` set (reminders w)" by (rule imageI)
      then have "?f d \<in> set (map ?f (reminders w))" by (simp only: set_map)
      ultimately show "d \<in> set (reminders w')" using m by simp
    qed
    from p m k show ?thesis by blast
  qed
  from item routine show ?thesis by blast
qed

theorem reminder_marked_only_after_mail_witness:
  "new_log w_two (snd (setReminder E_smtp w_two)) ! 6 =
     (SendMail (reminderMail E0 bob standup), None)
   \<and> new_log w_two (snd (setReminder E_smtp w_two)) ! 7 = (PatchSent ''r2'', None)
   \<and> reminders (snd (setReminder E_smtp w_two)) = [r_ann, r_bob\<lparr>sent := True\<rparr>]
   \<and> r_ann \<in> set (reminders (snd (setReminder E_smtp w_two)))"
proof -
  have l: "new_log w_two (snd (setReminder E_smtp w_two)) =
     [(FetchReminders, None),
      (FetchEvent ''e1'', None), (FindById ''u1'', None),
      (SendMail (reminderMail E0 ann standup), Some ''SMTP refused''),
      (FetchEvent ''e1'', None), (FindById ''u2'', None),
      (SendMail (reminderMail E0 bob standup), None),
      (PatchSent ''r2'', None)]"
    unfolding setReminder_smtp_run by (simp add: new_log_def w_two_def w0_def)
  have run: "setReminder E_smtp w_two =
      (fst (setReminder E_smtp w_two), snd (setReminder E_smtp w_two))"
    by simp
  note t = reminder_marked_only_after_mail [where E = E_smtp and w = w_two
      and out = "fst (setReminder E_smtp w_two)" and w' = "snd (setReminder E_smtp w_two)",
      THEN conjunct2, THEN mp, OF run]
  have a: "new_log w_two (snd (setReminder E_smtp w_two)) ! 6 =
     (SendMail (reminderMail E0 bob standup), None)"
    by (simp add: l)
  have b: "new_log w_two (snd (setReminder E_smtp w_two)) ! 7 = (PatchSent ''r2'', None)"
    by (simp add: l)
  have c: "reminders (snd (setReminder E_smtp w_two)) = [r_ann, r_bob\<lparr>sent := True\<rparr>]"
    by (simp add: setReminder_smtp_run)
  have mem: "r_ann \<in> set (reminders w_two)"
    by (simp add: w_two_def w0_def)
  have notp: "(PatchSent (reminder_id r_ann), None)
      \<notin> set (new_log w_two (snd (setReminder E_smtp w_two)))"
    by (simp add: l r_ann_def)
  have d: "r_ann \<in> set (reminders (snd (setReminder E_smtp w_two)))"
    by (rule t [THEN conjunct2, THEN conjunct2, THEN bspec, OF mem, THEN mp, OF notp])
  from a b c d show ?thesis by (intro conjI)
qed

end
